theory Spec2Isabelle
  imports Main "HOL-Library.Word"
begin

section \<open>The memory core of CHULUBME (code/engine/core/memory.h)\<close>

text \<open>
  \<open>memory.h\<close> declares three allocators, the \<open>MemoryManager\<close> registry and the
  ownership wrapper \<open>AllocatedPtr\<close>.  The accessors \<open>GetAllocatedSize\<close> and
  \<open>GetTotalSize\<close> and the whole of \<open>AllocatedPtr\<close> are defined in the header; the other
  member functions are only declared there, and their bodies are modelled from the
  specification, each marked as such.

  \<open>size_t\<close> is an unsigned machine integer; it is taken at 64 bits, and its arithmetic
  wraps around.  Addresses (\<open>uint8_t*\<close>, \<open>void*\<close>, \<open>T*\<close>) are 64-bit values as well, and
  \<open>nullptr\<close> is the address 0.
\<close>

type_synonym size_t = "64 word"
type_synonym addr = "64 word"

definition nullptr :: addr where
  "nullptr = 0"

text \<open>\<open>enum class AllocatorType\<close> of \<open>MemoryManager\<close>.\<close>

datatype AllocatorType = Default | Linear | Pool | Stack

subsection \<open>Alignment\<close>

text \<open>Modelled from the spec: the "natural alignment for the platform word size", which
  no constant of the header gives; the platform word is 8 bytes here.\<close>

definition natural_alignment :: nat where
  "natural_alignment = 8"

text \<open>Modelled from the spec: the alignment rule of \<open>Allocate\<close>, whose body is not in the
  header: "alignment of 0 means use the natural alignment for the platform word size".\<close>

definition effective_alignment :: "size_t \<Rightarrow> nat" where
  "effective_alignment alignment =
     (if alignment = 0 then natural_alignment else unat alignment)"

text \<open>Modelled from the spec: the "alignment padding" of \<open>Allocate\<close>, whose body is not in
  the header: the distance from an address to the next aligned address at or above it.\<close>

definition alignment_padding :: "nat \<Rightarrow> nat \<Rightarrow> nat" where
  "alignment_padding address al = (al - address mod al) mod al"

subsection \<open>LinearAllocator\<close>

text \<open>
  The private members of \<open>class LinearAllocator\<close>.  The three allocator classes use the
  same member names, so the fields carry the class as a prefix in place of \<open>m_\<close>.
\<close>

record LinearAllocator =
  lin_memory :: addr
  lin_size :: size_t
  lin_offset :: size_t
  lin_ownsMemory :: bool

text \<open>\<open>size_t GetAllocatedSize() const override { return m_offset; }\<close>\<close>

definition LinearAllocator_GetAllocatedSize :: "LinearAllocator \<Rightarrow> size_t" where
  "LinearAllocator_GetAllocatedSize a = lin_offset a"

text \<open>\<open>size_t GetTotalSize() const override { return m_size; }\<close>\<close>

definition LinearAllocator_GetTotalSize :: "LinearAllocator \<Rightarrow> size_t" where
  "LinearAllocator_GetTotalSize a = lin_size a"

text \<open>Modelled from the spec: \<open>LinearAllocator::Allocate\<close>, declared in the header and
  defined in a source file that is not among the sources.  "Computes the next aligned
  offset at or above the current offset, reserves \<open>size\<close> bytes there, fails with an
  out-of-memory condition if the reserved range would exceed the buffer"; "allocation
  advances \<open>offset\<close> by \<open>size\<close> + alignment padding"; the returned address is aligned.
  The capacity check is arithmetic on the unsigned values, as the spec states it.  The
  result is \<open>None\<close> for the failure (\<open>nullptr\<close> in C++), otherwise the address.
\<close>

definition LinearAllocator_Allocate ::
  "size_t \<Rightarrow> size_t \<Rightarrow> LinearAllocator \<Rightarrow> addr option \<times> LinearAllocator" where
  "LinearAllocator_Allocate sz alignment a =
     (let padding = alignment_padding (unat (lin_memory a) + unat (lin_offset a))
                      (effective_alignment alignment);
          start = unat (lin_offset a) + padding
      in if unat (lin_size a) < start + unat sz then (None, a)
         else (Some (lin_memory a + word_of_nat start),
               a\<lparr>lin_offset := word_of_nat (start + unat sz)\<rparr>))"

text \<open>Modelled from the spec: \<open>LinearAllocator::Free\<close>, declared only.  "Freeing a single
  pointer is a documented no-op."\<close>

definition LinearAllocator_Free :: "addr \<Rightarrow> LinearAllocator \<Rightarrow> LinearAllocator" where
  "LinearAllocator_Free ptr a = a"

text \<open>A sequence of \<open>Allocate(size, alignment)\<close> calls, with the result of each call.\<close>

fun LinearAllocator_Allocate_all ::
  "(size_t \<times> size_t) list \<Rightarrow> LinearAllocator \<Rightarrow> addr option list \<times> LinearAllocator" where
  "LinearAllocator_Allocate_all [] a = ([], a)"
| "LinearAllocator_Allocate_all ((sz, alignment) # rest) a =
     (case LinearAllocator_Allocate sz alignment a of
        (p, a') \<Rightarrow> (case LinearAllocator_Allocate_all rest a' of
                      (ps, a'') \<Rightarrow> (p # ps, a'')))"

text \<open>
  The cumulative aligned size of a sequence of requests made at offset \<open>off\<close> of a buffer
  at address \<open>base\<close>: every request adds its alignment padding and its size.
\<close>

fun cumulative_aligned_size :: "nat \<Rightarrow> nat \<Rightarrow> (size_t \<times> size_t) list \<Rightarrow> nat" where
  "cumulative_aligned_size base off [] = off"
| "cumulative_aligned_size base off ((sz, alignment) # rest) =
     cumulative_aligned_size base
       (off + alignment_padding (base + off) (effective_alignment alignment) + unat sz) rest"

text \<open>
  The state invariant of the spec, \<open>0 \<le> offset \<le> size\<close>, for a buffer that lies in the
  address space (its end does not wrap around).
\<close>

definition lin_valid :: "LinearAllocator \<Rightarrow> bool" where
  "lin_valid a \<longleftrightarrow>
     unat (lin_offset a) \<le> unat (lin_size a)
     \<and> unat (lin_memory a) + unat (lin_size a) < 2 ^ 64"

text \<open>The \<open>sz\<close> bytes at \<open>p\<close> lie within the buffer; \<open>p\<close> has the requested alignment.\<close>

definition within_buffer :: "LinearAllocator \<Rightarrow> addr \<Rightarrow> size_t \<Rightarrow> bool" where
  "within_buffer a p sz \<longleftrightarrow>
     unat (lin_memory a) \<le> unat p
     \<and> unat p + unat sz \<le> unat (lin_memory a) + unat (lin_size a)"

definition aligned_to :: "addr \<Rightarrow> size_t \<Rightarrow> bool" where
  "aligned_to p alignment \<longleftrightarrow> unat p mod effective_alignment alignment = 0"

subsection \<open>PoolAllocator\<close>

text \<open>The private members of \<open>class PoolAllocator\<close>.\<close>

record PoolAllocator =
  pool_memory :: addr
  pool_blockSize :: size_t
  pool_blockCount :: size_t
  pool_freeBlocks :: size_t
  pool_freeList :: addr
  pool_ownsMemory :: bool

text \<open>\<open>return (m_blockCount - m_freeBlocks) * m_blockSize;\<close>\<close>

definition PoolAllocator_GetAllocatedSize :: "PoolAllocator \<Rightarrow> size_t" where
  "PoolAllocator_GetAllocatedSize a = (pool_blockCount a - pool_freeBlocks a) * pool_blockSize a"

text \<open>\<open>return m_blockCount * m_blockSize;\<close>\<close>

definition PoolAllocator_GetTotalSize :: "PoolAllocator \<Rightarrow> size_t" where
  "PoolAllocator_GetTotalSize a = pool_blockCount a * pool_blockSize a"

subsection \<open>StackAllocator\<close>

text \<open>\<open>struct Marker { size_t offset; size_t adjustment; };\<close>\<close>

record Marker =
  marker_offset :: size_t
  marker_adjustment :: size_t

text \<open>
  The private members of \<open>class StackAllocator\<close>, and \<open>stack_adjustment\<close>, which is
  modelled from the spec: the alignment padding that \<open>Allocate\<close> records and \<open>GetMarker\<close>
  captures.  The class declares no member for it; it stands for the allocator's record
  of the latest padding.
\<close>

record StackAllocator =
  stack_memory :: addr
  stack_size :: size_t
  stack_offset :: size_t
  stack_ownsMemory :: bool
  stack_adjustment :: size_t

text \<open>\<open>size_t GetAllocatedSize() const override { return m_offset; }\<close>\<close>

definition StackAllocator_GetAllocatedSize :: "StackAllocator \<Rightarrow> size_t" where
  "StackAllocator_GetAllocatedSize a = stack_offset a"

text \<open>\<open>size_t GetTotalSize() const override { return m_size; }\<close>\<close>

definition StackAllocator_GetTotalSize :: "StackAllocator \<Rightarrow> size_t" where
  "StackAllocator_GetTotalSize a = stack_size a"

text \<open>Modelled from the spec: \<open>StackAllocator::Allocate\<close>, declared only.  "Mirrors the
  linear allocator but additionally records the alignment padding used so it can be
  undone."\<close>

definition StackAllocator_Allocate ::
  "size_t \<Rightarrow> size_t \<Rightarrow> StackAllocator \<Rightarrow> addr option \<times> StackAllocator" where
  "StackAllocator_Allocate sz alignment a =
     (let padding = alignment_padding (unat (stack_memory a) + unat (stack_offset a))
                      (effective_alignment alignment);
          start = unat (stack_offset a) + padding
      in if unat (stack_size a) < start + unat sz then (None, a)
         else (Some (stack_memory a + word_of_nat start),
               a\<lparr>stack_offset := word_of_nat (start + unat sz),
                 stack_adjustment := word_of_nat padding\<rparr>))"

text \<open>Modelled from the spec: \<open>StackAllocator::GetMarker\<close>, declared only.  "Captures
  \<open>(offset, pendingAdjustment)\<close>."\<close>

definition StackAllocator_GetMarker :: "StackAllocator \<Rightarrow> Marker" where
  "StackAllocator_GetMarker a =
     \<lparr>marker_offset = stack_offset a, marker_adjustment = stack_adjustment a\<rparr>"

text \<open>Modelled from the spec: \<open>StackAllocator::FreeToMarker\<close>, declared only.  "Restores
  \<open>offset\<close> to the marker's value."\<close>

definition StackAllocator_FreeToMarker :: "Marker \<Rightarrow> StackAllocator \<Rightarrow> StackAllocator" where
  "StackAllocator_FreeToMarker marker a = a\<lparr>stack_offset := marker_offset marker\<rparr>"

text \<open>A sequence of \<open>Allocate(size, alignment)\<close> calls, with the result of each call.\<close>

fun StackAllocator_Allocate_all ::
  "(size_t \<times> size_t) list \<Rightarrow> StackAllocator \<Rightarrow> addr option list \<times> StackAllocator" where
  "StackAllocator_Allocate_all [] a = ([], a)"
| "StackAllocator_Allocate_all ((sz, alignment) # rest) a =
     (case StackAllocator_Allocate sz alignment a of
        (p, a') \<Rightarrow> (case StackAllocator_Allocate_all rest a' of
                      (ps, a'') \<Rightarrow> (p # ps, a'')))"

subsection \<open>MemoryManager\<close>

text \<open>
  The allocators a \<open>std::unique_ptr<Allocator>\<close> of the registry can hold: the three
  classes of the header that implement \<open>Allocator\<close>, and any other implementation (one
  passed to \<open>RegisterAllocator\<close>), of which only the values of its two accessors matter
  here.  The two accessors are virtual.
\<close>

datatype Allocator =
    LinearA LinearAllocator
  | PoolA PoolAllocator
  | StackA StackAllocator
  | CustomA size_t size_t

fun Allocator_GetAllocatedSize :: "Allocator \<Rightarrow> size_t" where
  "Allocator_GetAllocatedSize (LinearA a) = LinearAllocator_GetAllocatedSize a"
| "Allocator_GetAllocatedSize (PoolA a) = PoolAllocator_GetAllocatedSize a"
| "Allocator_GetAllocatedSize (StackA a) = StackAllocator_GetAllocatedSize a"
| "Allocator_GetAllocatedSize (CustomA allocated capacity) = allocated"

fun Allocator_GetTotalSize :: "Allocator \<Rightarrow> size_t" where
  "Allocator_GetTotalSize (LinearA a) = LinearAllocator_GetTotalSize a"
| "Allocator_GetTotalSize (PoolA a) = PoolAllocator_GetTotalSize a"
| "Allocator_GetTotalSize (StackA a) = StackAllocator_GetTotalSize a"
| "Allocator_GetTotalSize (CustomA allocated capacity) = capacity"

text \<open>\<open>struct MemoryStats\<close>; \<open>allocatorUsage\<close> is a \<open>std::unordered_map\<close>.\<close>

record MemoryStats =
  totalAllocated :: size_t
  totalReserved :: size_t
  allocatorUsage :: "AllocatorType \<rightharpoonup> size_t"

text \<open>The registry \<open>m_allocators\<close> of \<open>class MemoryManager\<close>.\<close>

record MemoryManager =
  m_allocators :: "AllocatorType \<rightharpoonup> Allocator"

definition all_AllocatorTypes :: "AllocatorType list" where
  "all_AllocatorTypes = [Default, Linear, Pool, Stack]"

text \<open>Modelled from the spec: the part of \<open>MemoryManager::GetMemoryStats\<close> (declared only)
  for one kind.  A registered allocator adds its allocated size to \<open>totalAllocated\<close>, its
  capacity to \<open>totalReserved\<close>, and gets its allocated size as the usage entry of its
  kind; a kind with no allocator adds nothing.\<close>

definition account_allocator :: "MemoryManager \<Rightarrow> AllocatorType \<Rightarrow> MemoryStats \<Rightarrow> MemoryStats" where
  "account_allocator mm type stats =
     (case m_allocators mm type of
        None \<Rightarrow> stats
      | Some allocator \<Rightarrow>
          stats\<lparr>totalAllocated := totalAllocated stats + Allocator_GetAllocatedSize allocator,
                totalReserved := totalReserved stats + Allocator_GetTotalSize allocator,
                allocatorUsage :=
                  (allocatorUsage stats)(type \<mapsto> Allocator_GetAllocatedSize allocator)\<rparr>)"

text \<open>Modelled from the spec: \<open>MemoryManager::GetMemoryStats\<close>, declared only.  It "reports
  aggregate usage statistics" \<open>{ totalAllocated, totalReserved, perKindUsage: kind -> bytes }\<close>
  over the registered allocators, starting from zero and from no entries.\<close>

definition MemoryManager_GetMemoryStats :: "MemoryManager \<Rightarrow> MemoryStats" where
  "MemoryManager_GetMemoryStats mm =
     fold (account_allocator mm) all_AllocatorTypes
       \<lparr>totalAllocated = 0, totalReserved = 0, allocatorUsage = Map.empty\<rparr>"

text \<open>The sum over all kinds of the usage entries of a \<open>MemoryStats\<close> value.\<close>

definition usage_sum :: "MemoryStats \<Rightarrow> size_t" where
  "usage_sum stats =
     sum_list (map (\<lambda>type. case allocatorUsage stats type of None \<Rightarrow> 0 | Some n \<Rightarrow> n)
                   all_AllocatorTypes)"

subsection \<open>AllocatedPtr\<close>

text \<open>
  \<open>template<typename T, MemoryManager::AllocatorType Type> class AllocatedPtr\<close> is defined
  in the header.  Its member functions call \<open>MemoryManager::Instance().Allocate\<close> and
  \<open>MemoryManager::Instance().Free\<close>, construct a \<open>T\<close> in place and run \<open>T\<close>'s destructor.
  What the program does is recorded as a list of effects, oldest first.
\<close>

datatype effect =
    Allocate_call AllocatorType size_t addr
  | Constructed addr
  | Constructor_threw addr
  | Destroyed addr
  | Free_call AllocatorType addr

text \<open>
  A member function returns, or an exception leaves it (\<open>Threw\<close>, with the state at that
  point), or the behaviour is undefined in C++.
\<close>

datatype ('v, 's) outcome = Returned 'v 's | Threw 's | Undefined

fun and_then ::
  "('v, 's) outcome \<Rightarrow> ('v \<Rightarrow> 's \<Rightarrow> ('w, 's) outcome) \<Rightarrow> ('w, 's) outcome" where
  "and_then (Returned v s) f = f v s"
| "and_then (Threw s) f = Threw s"
| "and_then Undefined f = Undefined"

fun final_state :: "('v, 's) outcome \<Rightarrow> 's option" where
  "final_state (Returned v s) = Some s"
| "final_state (Threw s) = Some s"
| "final_state Undefined = None"

fun threw :: "('v, 's) outcome \<Rightarrow> bool" where
  "threw (Threw s) = True"
| "threw (Returned v s) = False"
| "threw Undefined = False"

text \<open>The only data member: \<open>T* m_ptr\<close>.\<close>

record AllocatedPtr =
  m_ptr :: addr

text \<open>
  What the class template is instantiated with and what it calls: the allocator kind
  \<open>Type\<close>, \<open>sizeof(T)\<close>, whether \<open>T\<close>'s constructor throws on given arguments, and the two
  member functions of the manager, which the header only declares.  They are parameters:
  \<open>MM_Allocate type size alignment\<close> returns the address (\<open>nullptr\<close> for a failure) and the
  manager's new state, \<open>MM_Free type ptr\<close> the manager's new state.  \<open>T\<close>'s destructor does
  not throw (destructors are \<open>noexcept\<close> unless declared otherwise).
\<close>

record ('m, 'args) template_env =
  Type :: AllocatorType
  sizeof_T :: size_t
  T_throws :: "'args \<Rightarrow> bool"
  MM_Allocate :: "AllocatorType \<Rightarrow> size_t \<Rightarrow> size_t \<Rightarrow> 'm \<Rightarrow> addr \<times> 'm"
  MM_Free :: "AllocatorType \<Rightarrow> addr \<Rightarrow> 'm \<Rightarrow> 'm"

text \<open>
  The program state: the live wrapper objects, each known by its identity (the value of
  \<open>this\<close>), the state of the manager singleton, and the effects so far.
\<close>

record 'm program_state =
  objects :: "nat \<rightharpoonup> AllocatedPtr"
  manager :: 'm
  effects :: "effect list"

text \<open>\<open>m_ptr->~T();\<close>\<close>

definition call_destructor :: "addr \<Rightarrow> 'm program_state \<Rightarrow> 'm program_state" where
  "call_destructor p s = s\<lparr>effects := effects s @ [Destroyed p]\<rparr>"

text \<open>\<open>MemoryManager::Instance().Free(Type, m_ptr);\<close>\<close>

definition call_Free ::
  "('m, 'args) template_env \<Rightarrow> addr \<Rightarrow> 'm program_state \<Rightarrow> 'm program_state" where
  "call_Free E p s =
     s\<lparr>manager := MM_Free E (Type E) p (manager s),
       effects := effects s @ [Free_call (Type E) p]\<rparr>"

text \<open>An assignment to \<open>m_ptr\<close> of the object \<open>this\<close>.\<close>

definition set_m_ptr :: "nat \<Rightarrow> addr \<Rightarrow> 'm program_state \<Rightarrow> 'm program_state" where
  "set_m_ptr this p s = s\<lparr>objects := (objects s)(this \<mapsto> \<lparr>m_ptr = p\<rparr>)\<rparr>"

text \<open>
  The new-expression
  \<open>new (MemoryManager::Instance().Allocate(Type, sizeof(T))) T(std::forward<Args>(args)...)\<close>.
  \<open>Allocate\<close> is called with its default alignment 0.  The placement form of \<open>operator new\<close>
  returns the address it is given; for a null address the behaviour is undefined.  When
  the constructor throws, the matching placement \<open>operator delete\<close> runs, which does
  nothing, and the exception propagates: no statement of the code returns the storage.
\<close>

definition new_T ::
  "('m, 'args) template_env \<Rightarrow> 'args \<Rightarrow> 'm program_state
     \<Rightarrow> (addr, 'm program_state) outcome" where
  "new_T E args s =
     (case MM_Allocate E (Type E) (sizeof_T E) 0 (manager s) of
        (p, m') \<Rightarrow>
          let s1 = s\<lparr>manager := m',
                     effects := effects s @ [Allocate_call (Type E) (sizeof_T E) p]\<rparr>
          in if p = nullptr then Undefined
             else if T_throws E args
               then Threw (s1\<lparr>effects := effects s1 @ [Constructor_threw p]\<rparr>)
               else Returned p (s1\<lparr>effects := effects s1 @ [Constructed p]\<rparr>))"

text \<open>
  \<open>AllocatedPtr() : m_ptr(nullptr) {}\<close>.  A constructor makes a new object: \<open>this\<close> is not
  the identity of a live object.
\<close>

definition AllocatedPtr_default ::
  "nat \<Rightarrow> 'm program_state \<Rightarrow> (unit, 'm program_state) outcome" where
  "AllocatedPtr_default this s =
     (if objects s this \<noteq> None then Undefined
      else Returned () (set_m_ptr this nullptr s))"

text \<open>
  \<open>AllocatedPtr(Args&&... args) { m_ptr = new (...) T(...); }\<close>.  When the new-expression
  throws, the object never comes to life.
\<close>

definition AllocatedPtr_init ::
  "('m, 'args) template_env \<Rightarrow> nat \<Rightarrow> 'args \<Rightarrow> 'm program_state
     \<Rightarrow> (unit, 'm program_state) outcome" where
  "AllocatedPtr_init E this args s =
     (if objects s this \<noteq> None then Undefined
      else and_then (new_T E args s) (\<lambda>p s'. Returned () (set_m_ptr this p s')))"

text \<open>
  \<open>~AllocatedPtr() { if (m_ptr) { m_ptr->~T(); MemoryManager::Instance().Free(Type, m_ptr); } }\<close>;
  the object is gone afterwards.
\<close>

definition AllocatedPtr_destructor ::
  "('m, 'args) template_env \<Rightarrow> nat \<Rightarrow> 'm program_state
     \<Rightarrow> (unit, 'm program_state) outcome" where
  "AllocatedPtr_destructor E this s =
     (case objects s this of
        None \<Rightarrow> Undefined
      | Some w \<Rightarrow>
          let s' = (if m_ptr w \<noteq> nullptr
                    then call_Free E (m_ptr w) (call_destructor (m_ptr w) s)
                    else s)
          in Returned () (s'\<lparr>objects := (objects s')(this := None)\<rparr>))"

text \<open>
  \<open>AllocatedPtr(AllocatedPtr&& other) noexcept : m_ptr(other.m_ptr) { other.m_ptr = nullptr; }\<close>
\<close>

definition AllocatedPtr_move ::
  "nat \<Rightarrow> nat \<Rightarrow> 'm program_state \<Rightarrow> (unit, 'm program_state) outcome" where
  "AllocatedPtr_move this other s =
     (case objects s other of
        None \<Rightarrow> Undefined
      | Some ow \<Rightarrow>
          if objects s this \<noteq> None then Undefined
          else Returned () (set_m_ptr other nullptr (set_m_ptr this (m_ptr ow) s)))"

text \<open>
  \<open>operator=(AllocatedPtr&& other)\<close>:
  \<open>if (this != &other) { if (m_ptr) { m_ptr->~T(); Free(Type, m_ptr); }
     m_ptr = other.m_ptr; other.m_ptr = nullptr; } return *this;\<close>
\<close>

definition AllocatedPtr_move_assign ::
  "('m, 'args) template_env \<Rightarrow> nat \<Rightarrow> nat \<Rightarrow> 'm program_state
     \<Rightarrow> (unit, 'm program_state) outcome" where
  "AllocatedPtr_move_assign E this other s =
     (case objects s this of
        None \<Rightarrow> Undefined
      | Some w \<Rightarrow>
         (case objects s other of
            None \<Rightarrow> Undefined
          | Some ow \<Rightarrow>
              if this \<noteq> other then
                let s1 = (if m_ptr w \<noteq> nullptr
                          then call_Free E (m_ptr w) (call_destructor (m_ptr w) s)
                          else s);
                    s2 = set_m_ptr this (m_ptr ow) s1
                in Returned () (set_m_ptr other nullptr s2)
              else Returned () s))"

text \<open>\<open>T* Get() const { return m_ptr; }\<close>\<close>

definition AllocatedPtr_Get :: "AllocatedPtr \<Rightarrow> addr" where
  "AllocatedPtr_Get w = m_ptr w"

text \<open>\<open>explicit operator bool() const { return m_ptr != nullptr; }\<close>\<close>

definition AllocatedPtr_operator_bool :: "AllocatedPtr \<Rightarrow> bool" where
  "AllocatedPtr_operator_bool w \<longleftrightarrow> m_ptr w \<noteq> nullptr"

text \<open>
  \<open>void Reset() { if (m_ptr) { m_ptr->~T(); Free(Type, m_ptr); m_ptr = nullptr; } }\<close>
\<close>

definition AllocatedPtr_Reset ::
  "('m, 'args) template_env \<Rightarrow> nat \<Rightarrow> 'm program_state
     \<Rightarrow> (unit, 'm program_state) outcome" where
  "AllocatedPtr_Reset E this s =
     (case objects s this of
        None \<Rightarrow> Undefined
      | Some w \<Rightarrow>
          if m_ptr w \<noteq> nullptr
          then Returned () (set_m_ptr this nullptr
                              (call_Free E (m_ptr w) (call_destructor (m_ptr w) s)))
          else Returned () s)"

text \<open>\<open>void Reset(Args&&... args) { Reset(); m_ptr = new (...) T(...); }\<close>\<close>

definition AllocatedPtr_Reset_args ::
  "('m, 'args) template_env \<Rightarrow> nat \<Rightarrow> 'args \<Rightarrow> 'm program_state
     \<Rightarrow> (unit, 'm program_state) outcome" where
  "AllocatedPtr_Reset_args E this args s =
     and_then (AllocatedPtr_Reset E this s)
       (\<lambda>_ s1. and_then (new_T E args s1) (\<lambda>p s2. Returned () (set_m_ptr this p s2)))"

text \<open>
  The specification of \<open>Reset(args...)\<close>, in its words: "equivalent to \<open>Reset()\<close> followed
  by re-construction with new arguments", where construction "reserves storage of the
  wrapped type's size from the bound allocator kind, then constructs the value in place
  with caller-supplied arguments", and the wrapper holds the value.
\<close>

definition construct_value ::
  "('m, 'args) template_env \<Rightarrow> nat \<Rightarrow> 'args \<Rightarrow> 'm program_state
     \<Rightarrow> (unit, 'm program_state) outcome" where
  "construct_value E this args s =
     (case new_T E args s of
        Returned p s' \<Rightarrow> Returned () (set_m_ptr this p s')
      | Threw s' \<Rightarrow> Threw s'
      | Undefined \<Rightarrow> Undefined)"

definition spec_Reset_args ::
  "('m, 'args) template_env \<Rightarrow> nat \<Rightarrow> 'args \<Rightarrow> 'm program_state
     \<Rightarrow> (unit, 'm program_state) outcome" where
  "spec_Reset_args E this args s =
     (case AllocatedPtr_Reset E this s of
        Returned _ s1 \<Rightarrow> construct_value E this args s1
      | Threw s1 \<Rightarrow> Threw s1
      | Undefined \<Rightarrow> Undefined)"

subsection \<open>Sequences of AllocatedPtr operations\<close>

text \<open>
  The operations the class offers.  The copy constructor and the copy assignment are
  declared \<open>= delete\<close>, so there is no operation for them.
\<close>

datatype 'args operation =
    Op_default nat
  | Op_init nat 'args
  | Op_destructor nat
  | Op_move nat nat
  | Op_move_assign nat nat
  | Op_Reset nat
  | Op_Reset_args nat 'args

fun step ::
  "('m, 'args) template_env \<Rightarrow> 'args operation \<Rightarrow> 'm program_state
     \<Rightarrow> (unit, 'm program_state) outcome" where
  "step E (Op_default this) s = AllocatedPtr_default this s"
| "step E (Op_init this args) s = AllocatedPtr_init E this args s"
| "step E (Op_destructor this) s = AllocatedPtr_destructor E this s"
| "step E (Op_move this other) s = AllocatedPtr_move this other s"
| "step E (Op_move_assign this other) s = AllocatedPtr_move_assign E this other s"
| "step E (Op_Reset this) s = AllocatedPtr_Reset E this s"
| "step E (Op_Reset_args this args) s = AllocatedPtr_Reset_args E this args s"








text \<open>No two live wrappers hold the same non-null address.\<close>

definition exclusive :: "(nat \<rightharpoonup> AllocatedPtr) \<Rightarrow> bool" where
  "exclusive m \<longleftrightarrow>
     (\<forall>this other w ow.
        m this = Some w \<and> m other = Some ow
        \<and> m_ptr w = m_ptr ow \<and> m_ptr w \<noteq> nullptr \<longrightarrow> this = other)"





subsection \<open>A concrete instance\<close>

text \<open>Modelled from the spec: the dispatch of \<open>MemoryManager::Allocate\<close> (declared only)
  for a kind whose registered allocator is a LinearAllocator: the call goes to that
  allocator, and a failure is the null address.\<close>

definition linear_manager_Allocate ::
  "AllocatorType \<Rightarrow> size_t \<Rightarrow> size_t \<Rightarrow> LinearAllocator \<Rightarrow> addr \<times> LinearAllocator" where
  "linear_manager_Allocate type sz alignment a =
     (case LinearAllocator_Allocate sz alignment a of
        (None, a') \<Rightarrow> (nullptr, a')
      | (Some p, a') \<Rightarrow> (p, a'))"

text \<open>Modelled from the spec: the dispatch of \<open>MemoryManager::Free\<close> (declared only) for
  such a kind.\<close>

definition linear_manager_Free ::
  "AllocatorType \<Rightarrow> addr \<Rightarrow> LinearAllocator \<Rightarrow> LinearAllocator" where
  "linear_manager_Free type ptr a = LinearAllocator_Free ptr a"

text \<open>
  \<open>AllocatedPtr<T, AllocatorType::Linear>\<close> for a \<open>T\<close> of 8 bytes whose constructor takes a
  flag and throws when the flag is set.
\<close>

definition example_env :: "(LinearAllocator, bool) template_env" where
  "example_env =
     \<lparr>Type = Linear, sizeof_T = 8, T_throws = (\<lambda>fail. fail),
      MM_Allocate = linear_manager_Allocate, MM_Free = linear_manager_Free\<rparr>"

text \<open>A linear allocator of 64 bytes at address 4096, and three requests to it.\<close>

definition example_linear :: LinearAllocator where
  "example_linear =
     \<lparr>lin_memory = 4096, lin_size = 64, lin_offset = 0, lin_ownsMemory = True\<rparr>"

definition example_requests :: "(size_t \<times> size_t) list" where
  "example_requests = [(8, 0), (3, 4), (16, 16)]"

text \<open>A pool of four blocks of 64 bytes at address 4096, one of them free.\<close>

definition example_pool :: PoolAllocator where
  "example_pool =
     \<lparr>pool_memory = 4096, pool_blockSize = 64, pool_blockCount = 4, pool_freeBlocks = 1,
      pool_freeList = 4288, pool_ownsMemory = True\<rparr>"

text \<open>A stack allocator of 256 bytes at address 4096.\<close>

definition example_stack :: StackAllocator where
  "example_stack =
     \<lparr>stack_memory = 4096, stack_size = 256, stack_offset = 0, stack_ownsMemory = True,
      stack_adjustment = 0\<rparr>"

text \<open>The program before any wrapper exists.\<close>

definition example_state :: "LinearAllocator program_state" where
  "example_state = \<lparr>objects = Map.empty, manager = example_linear, effects = []\<rparr>"

text \<open>Wrapper 1 holds a value at 4096, wrapper 2 is empty.\<close>

definition example_holding :: "LinearAllocator program_state" where
  "example_holding =
     \<lparr>objects = [1 \<mapsto> \<lparr>m_ptr = 4096\<rparr>, 2 \<mapsto> \<lparr>m_ptr = nullptr\<rparr>],
      manager = \<lparr>lin_memory = 4096, lin_size = 64, lin_offset = 8, lin_ownsMemory = True\<rparr>,
      effects = [Allocate_call Linear 8 4096, Constructed 4096]\<rparr>"

text \<open>The same program after wrapper 1 released its value.\<close>

definition example_empty :: "LinearAllocator program_state" where
  "example_empty =
     \<lparr>objects = [1 \<mapsto> \<lparr>m_ptr = nullptr\<rparr>, 2 \<mapsto> \<lparr>m_ptr = nullptr\<rparr>],
      manager = \<lparr>lin_memory = 4096, lin_size = 64, lin_offset = 8, lin_ownsMemory = True\<rparr>,
      effects = [Allocate_call Linear 8 4096, Constructed 4096,
                 Destroyed 4096, Free_call Linear 4096]\<rparr>"



text \<open>
  A second instance of the two manager functions, one whose state shows what was returned
  to it: \<open>Allocate\<close> hands out consecutive addresses, \<open>Free\<close> appends the address to the
  list of returned addresses.  It instantiates the parameters of the wrapper; it is not a
  model of a class of the header.
\<close>

record logging_manager =
  next_address :: addr
  returned :: "addr list"

definition logging_Allocate ::
  "AllocatorType \<Rightarrow> size_t \<Rightarrow> size_t \<Rightarrow> logging_manager \<Rightarrow> addr \<times> logging_manager" where
  "logging_Allocate type sz alignment m =
     (next_address m, m\<lparr>next_address := next_address m + sz\<rparr>)"

definition logging_Free :: "AllocatorType \<Rightarrow> addr \<Rightarrow> logging_manager \<Rightarrow> logging_manager" where
  "logging_Free type ptr m = m\<lparr>returned := returned m @ [ptr]\<rparr>"

text \<open>\<open>AllocatedPtr<T, AllocatorType::Pool>\<close> over that manager, for the same \<open>T\<close>.\<close>

definition logging_env :: "(logging_manager, bool) template_env" where
  "logging_env =
     \<lparr>Type = Pool, sizeof_T = 8, T_throws = (\<lambda>fail. fail),
      MM_Allocate = logging_Allocate, MM_Free = logging_Free\<rparr>"

text \<open>Wrapper 1 holds a value at 4096, wrapper 2 is empty; nothing was returned yet.\<close>

definition logging_holding :: "logging_manager program_state" where
  "logging_holding =
     \<lparr>objects = [1 \<mapsto> \<lparr>m_ptr = 4096\<rparr>, 2 \<mapsto> \<lparr>m_ptr = nullptr\<rparr>],
      manager = \<lparr>next_address = 4104, returned = []\<rparr>,
      effects = [Allocate_call Pool 8 4096, Constructed 4096]\<rparr>"

section \<open>Lemmas\<close>

subsection \<open>Alignment and the linear allocator\<close>

lemma effective_alignment_pos: "0 < effective_alignment al"
  by (simp add: effective_alignment_def natural_alignment_def unat_gt_0)

lemma alignment_padding_aligned:
  "0 < al \<Longrightarrow> (address + alignment_padding address al) mod al = 0"
  unfolding alignment_padding_def
  by (metis add.commute le_add_diff_inverse2 mod_add_right_eq mod_le_divisor mod_self)

lemma alignment_padding_less: "0 < al \<Longrightarrow> alignment_padding address al < al"
  by (simp add: alignment_padding_def)

lemma cumulative_mono: "off \<le> cumulative_aligned_size base off reqs"
proof (induction reqs arbitrary: off)
  case Nil
  show ?case by simp
next
  case (Cons r reqs)
  obtain sz al where r: "r = (sz, al)" by (cases r)
  have "off \<le> off + alignment_padding (base + off) (effective_alignment al) + unat sz"
    by simp
  also have "\<dots> \<le> cumulative_aligned_size base \<dots> reqs"
    by (rule Cons.IH)
  finally show ?case by (simp add: r)
qed

lemma cumulative_append:
  "cumulative_aligned_size base off (reqs @ [(sz, al)]) =
     cumulative_aligned_size base off reqs
       + alignment_padding (base + cumulative_aligned_size base off reqs) (effective_alignment al)
       + unat sz"
  by (induction base off reqs rule: cumulative_aligned_size.induct) simp_all

text \<open>A request that fits succeeds, inside the buffer and aligned.\<close>

lemma Allocate_fits:
  assumes "lin_valid a"
    and "unat (lin_offset a)
           + alignment_padding (unat (lin_memory a) + unat (lin_offset a)) (effective_alignment al)
           + unat sz \<le> unat (lin_size a)"
  shows "\<exists>p a'. LinearAllocator_Allocate sz al a = (Some p, a')
          \<and> within_buffer a p sz \<and> aligned_to p al \<and> lin_valid a'
          \<and> lin_memory a' = lin_memory a \<and> lin_size a' = lin_size a
          \<and> unat (lin_offset a') = unat (lin_offset a)
               + alignment_padding (unat (lin_memory a) + unat (lin_offset a))
                   (effective_alignment al)
               + unat sz"
proof -
  let ?pad = "alignment_padding (unat (lin_memory a) + unat (lin_offset a)) (effective_alignment al)"
  let ?start = "unat (lin_offset a) + ?pad"
  let ?p = "lin_memory a + word_of_nat ?start"
  let ?a' = "a\<lparr>lin_offset := word_of_nat (?start + unat sz)\<rparr>"
  have eq: "LinearAllocator_Allocate sz al a = (Some ?p, ?a')"
    using assms(2) by (simp add: LinearAllocator_Allocate_def Let_def del: of_nat_add)
  have bound: "unat (lin_memory a) + unat (lin_size a) < 2 ^ 64"
    using assms(1) by (simp add: lin_valid_def)
  have start: "unat (word_of_nat ?start :: 64 word) = ?start"
    using assms(2) bound by (simp add: unat_of_nat del: of_nat_add)
  have p: "unat ?p = unat (lin_memory a) + ?start"
    using assms(2) bound by (simp add: unat_word_ariths start del: of_nat_add)
  have off: "unat (word_of_nat (?start + unat sz) :: 64 word) = ?start + unat sz"
    using assms(2) bound by (simp add: unat_of_nat del: of_nat_add)
  have al: "unat ?p mod effective_alignment al = 0"
    unfolding p
    using alignment_padding_aligned
      [OF effective_alignment_pos, of "unat (lin_memory a) + unat (lin_offset a)" al]
    by (simp add: add.assoc)
  show ?thesis
    unfolding eq within_buffer_def aligned_to_def lin_valid_def
    using assms(2) bound al p off
    by (simp del: of_nat_add)
qed

text \<open>A request that would exceed the capacity fails and leaves the allocator as it was.\<close>

lemma Allocate_exceeds:
  assumes "unat (lin_size a) < unat (lin_offset a)
             + alignment_padding (unat (lin_memory a) + unat (lin_offset a)) (effective_alignment al)
             + unat sz"
  shows "LinearAllocator_Allocate sz al a = (None, a)"
  using assms by (simp add: LinearAllocator_Allocate_def Let_def)

lemma Allocate_all_fits:
  assumes "lin_valid a"
    and "cumulative_aligned_size (unat (lin_memory a)) (unat (lin_offset a)) reqs
           \<le> unat (lin_size a)"
  shows "list_all2 (\<lambda>(sz, al) r. \<exists>p. r = Some p \<and> within_buffer a p sz \<and> aligned_to p al)
           reqs (fst (LinearAllocator_Allocate_all reqs a))
       \<and> lin_valid (snd (LinearAllocator_Allocate_all reqs a))
       \<and> lin_memory (snd (LinearAllocator_Allocate_all reqs a)) = lin_memory a
       \<and> lin_size (snd (LinearAllocator_Allocate_all reqs a)) = lin_size a
       \<and> unat (lin_offset (snd (LinearAllocator_Allocate_all reqs a)))
           = cumulative_aligned_size (unat (lin_memory a)) (unat (lin_offset a)) reqs"
  using assms
proof (induction reqs arbitrary: a)
  case Nil
  then show ?case by simp
next
  case (Cons r reqs)
  obtain sz al where r: "r = (sz, al)" by (cases r)
  let ?next = "unat (lin_offset a)
     + alignment_padding (unat (lin_memory a) + unat (lin_offset a)) (effective_alignment al)
     + unat sz"
  have "?next \<le> cumulative_aligned_size (unat (lin_memory a)) ?next reqs"
    by (rule cumulative_mono)
  with Cons.prems(2) have fits: "?next \<le> unat (lin_size a)" by (simp add: r)
  from Allocate_fits [OF Cons.prems(1) fits] obtain p a' where
    step: "LinearAllocator_Allocate sz al a = (Some p, a')"
    and p: "within_buffer a p sz" "aligned_to p al"
    and a': "lin_valid a'" "lin_memory a' = lin_memory a" "lin_size a' = lin_size a"
      "unat (lin_offset a') = ?next"
    by blast
  have "cumulative_aligned_size (unat (lin_memory a')) (unat (lin_offset a')) reqs
          \<le> unat (lin_size a')"
    using Cons.prems(2) by (simp add: r a')
  from Cons.IH [OF a'(1) this] have IH:
    "list_all2 (\<lambda>(sz, al) r. \<exists>p. r = Some p \<and> within_buffer a' p sz \<and> aligned_to p al)
           reqs (fst (LinearAllocator_Allocate_all reqs a'))"
    "lin_valid (snd (LinearAllocator_Allocate_all reqs a'))"
    "lin_memory (snd (LinearAllocator_Allocate_all reqs a')) = lin_memory a'"
    "lin_size (snd (LinearAllocator_Allocate_all reqs a')) = lin_size a'"
    "unat (lin_offset (snd (LinearAllocator_Allocate_all reqs a')))
           = cumulative_aligned_size (unat (lin_memory a')) (unat (lin_offset a')) reqs"
    by simp_all
  have wb: "within_buffer a' = within_buffer a"
    by (simp add: within_buffer_def fun_eq_iff a')
  show ?case
    using IH p by (auto simp: r step wb a' split: prod.splits)
qed

subsection \<open>The pool\<close>

lemma unat_mult_no_overflow:
  fixes x y :: "64 word"
  assumes "unat x * unat y < 2 ^ 64"
  shows "unat (x * y) = unat x * unat y"
  using assms by (simp add: unat_mult_lem [symmetric])

subsection \<open>The registry\<close>

lemma all_AllocatorTypes_complete:
  "set all_AllocatorTypes = UNIV \<and> distinct all_AllocatorTypes"
proof -
  have "t \<in> set all_AllocatorTypes" for t
    unfolding all_AllocatorTypes_def by (cases t) simp_all
  then show ?thesis by (auto simp: all_AllocatorTypes_def)
qed

lemma stats_usage:
  "allocatorUsage (MemoryManager_GetMemoryStats mm) type
     = map_option Allocator_GetAllocatedSize (m_allocators mm type)"
  by (cases type)
     (simp_all add: MemoryManager_GetMemoryStats_def all_AllocatorTypes_def
        account_allocator_def split: option.splits)

subsection \<open>Outcomes and effects of the wrapper's operations\<close>





lemma Reset_effects:
  assumes "AllocatedPtr_Reset E this s = r"
  shows "r = Undefined \<and> objects s this = None
       \<or> (\<exists>w. objects s this = Some w \<and> m_ptr w = nullptr \<and> r = Returned () s)
       \<or> (\<exists>w s'. objects s this = Some w \<and> m_ptr w \<noteq> nullptr \<and> r = Returned () s'
            \<and> objects s' = (objects s)(this \<mapsto> \<lparr>m_ptr = nullptr\<rparr>)
            \<and> effects s' = effects s @ [Destroyed (m_ptr w), Free_call (Type E) (m_ptr w)])"
  using assms
  by (auto simp: AllocatedPtr_Reset_def set_m_ptr_def call_Free_def call_destructor_def
       split: option.splits)




subsection \<open>The ownership invariant\<close>













subsection \<open>Every value has one owner\<close>

lemma exclusiveD:
  "exclusive m \<Longrightarrow> m this = Some w \<Longrightarrow> m other = Some ow \<Longrightarrow> m_ptr w = m_ptr ow
     \<Longrightarrow> m_ptr w \<noteq> nullptr \<Longrightarrow> this = other"
  unfolding exclusive_def by blast










lemma exclusive_set_null:
  assumes "exclusive m"
  shows "exclusive (m(this \<mapsto> \<lparr>m_ptr = nullptr\<rparr>))"
  unfolding exclusive_def
proof (intro allI impI, elim conjE)
  fix i j w ow
  assume a: "(m(this \<mapsto> \<lparr>m_ptr = nullptr\<rparr>)) i = Some w"
    "(m(this \<mapsto> \<lparr>m_ptr = nullptr\<rparr>)) j = Some ow" "m_ptr w = m_ptr ow" "m_ptr w \<noteq> nullptr"
  then have "i \<noteq> this" "j \<noteq> this" by (auto split: if_splits)
  with a have "m i = Some w" "m j = Some ow" by simp_all
  from exclusiveD [OF assms this a(3) a(4)] show "i = j" .
qed













subsection \<open>The concrete instance\<close>

lemma example_env_simps:
  "Type example_env = Linear" "sizeof_T example_env = 8" "T_throws example_env b = b"
  "MM_Allocate example_env = linear_manager_Allocate"
  "MM_Free example_env = linear_manager_Free"
  by (simp_all add: example_env_def)

lemma logging_env_simps:
  "Type logging_env = Pool" "sizeof_T logging_env = 8" "T_throws logging_env b = b"
  "MM_Allocate logging_env = logging_Allocate" "MM_Free logging_env = logging_Free"
  by (simp_all add: logging_env_def)

lemma example_linear_Allocate:
  "linear_manager_Allocate type 8 0
     \<lparr>lin_memory = 4096, lin_size = 64, lin_offset = 0, lin_ownsMemory = True\<rparr>
    = (4096, \<lparr>lin_memory = 4096, lin_size = 64, lin_offset = 8, lin_ownsMemory = True\<rparr>)"
  "linear_manager_Allocate type 8 0
     \<lparr>lin_memory = 4096, lin_size = 64, lin_offset = 8, lin_ownsMemory = True\<rparr>
    = (4104, \<lparr>lin_memory = 4096, lin_size = 64, lin_offset = 16, lin_ownsMemory = True\<rparr>)"
  "linear_manager_Allocate type 8 0
     \<lparr>lin_memory = 4096, lin_size = 64, lin_offset = 16, lin_ownsMemory = True\<rparr>
    = (4112, \<lparr>lin_memory = 4096, lin_size = 64, lin_offset = 24, lin_ownsMemory = True\<rparr>)"
  "linear_manager_Allocate type 8 0
     \<lparr>lin_memory = 4096, lin_size = 64, lin_offset = 24, lin_ownsMemory = True\<rparr>
    = (4120, \<lparr>lin_memory = 4096, lin_size = 64, lin_offset = 32, lin_ownsMemory = True\<rparr>)"
  by (simp_all add: linear_manager_Allocate_def LinearAllocator_Allocate_def
        alignment_padding_def effective_alignment_def natural_alignment_def)

lemma example_Reset:
  "AllocatedPtr_Reset example_env 1 example_holding = Returned () example_empty"
  by (simp add: AllocatedPtr_Reset_def example_holding_def example_empty_def call_Free_def
        call_destructor_def set_m_ptr_def example_env_simps nullptr_def
        linear_manager_Free_def LinearAllocator_Free_def fun_eq_iff)


section \<open>The claims\<close>

subsection \<open>C1: a throwing constructor\<close>

text \<open>
  C1, as the code has it.  When \<open>T\<close>'s constructor throws in \<open>AllocatedPtr(args...)\<close> or in
  \<open>Reset(args...)\<close>, the exception propagates after exactly two effects of the
  construction, the \<open>Allocate\<close> call and the failed construction: there is no \<open>Free\<close> call
  for the storage just reserved, the manager stays in the state \<open>Allocate\<close> left it in,
  and no wrapper holds the address; after \<open>Reset(args...)\<close> the wrapper is empty.  Here
  \<open>s\<close> is the state in which the construction starts: for \<open>Reset(args...)\<close>, the state
  its call of \<open>Reset()\<close> returns.
\<close>

theorem throwing_constructor_keeps_storage:
  assumes "T_throws E args"
    and "MM_Allocate E (Type E) (sizeof_T E) 0 (manager s) = (p, m')"
    and "p \<noteq> nullptr"
  shows "(objects s fresh = None \<longrightarrow>
            AllocatedPtr_init E fresh args s =
              Threw (s\<lparr>manager := m',
                        effects := effects s @ [Allocate_call (Type E) (sizeof_T E) p,
                                                Constructor_threw p]\<rparr>))
       \<and> (AllocatedPtr_Reset E this s0 = Returned () s \<longrightarrow>
            AllocatedPtr_Reset_args E this args s0 =
              Threw (s\<lparr>manager := m',
                        effects := effects s @ [Allocate_call (Type E) (sizeof_T E) p,
                                                Constructor_threw p]\<rparr>)
            \<and> objects s this = Some \<lparr>m_ptr = nullptr\<rparr>)"
proof -
  have null: "w = \<lparr>m_ptr = nullptr\<rparr>" if "m_ptr w = nullptr" for w :: AllocatedPtr
    using that by (cases w) simp
  have "objects s this = Some \<lparr>m_ptr = nullptr\<rparr>"
    if "AllocatedPtr_Reset E this s0 = Returned () s"
    using Reset_effects [OF that] by (auto simp: null)
  with assms show ?thesis
    by (simp add: AllocatedPtr_init_def AllocatedPtr_Reset_args_def new_T_def)
qed

theorem throwing_constructor_keeps_storage_witness:
  "T_throws example_env True
   \<and> MM_Allocate example_env (Type example_env) (sizeof_T example_env) 0 (manager example_empty)
       = (4104, \<lparr>lin_memory = 4096, lin_size = 64, lin_offset = 16, lin_ownsMemory = True\<rparr>)
   \<and> (4104 :: addr) \<noteq> nullptr
   \<and> objects example_empty 3 = None
   \<and> AllocatedPtr_Reset example_env 1 example_holding = Returned () example_empty
   \<and> map_option effects (final_state (AllocatedPtr_init example_env 3 True example_empty))
        = Some (effects example_empty @ [Allocate_call Linear 8 4104, Constructor_threw 4104])
   \<and> map_option effects
        (final_state (AllocatedPtr_Reset_args example_env 1 True example_holding))
        = Some (effects example_empty @ [Allocate_call Linear 8 4104, Constructor_threw 4104])
   \<and> objects example_empty 1 = Some \<lparr>m_ptr = nullptr\<rparr>"
proof -
  have h1: "T_throws example_env True" by (simp add: example_env_simps)
  have h2: "MM_Allocate example_env (Type example_env) (sizeof_T example_env) 0
              (manager example_empty)
       = (4104, \<lparr>lin_memory = 4096, lin_size = 64, lin_offset = 16, lin_ownsMemory = True\<rparr>)"
    by (simp add: example_env_simps example_empty_def example_linear_Allocate)
  have h3: "(4104 :: addr) \<noteq> nullptr" by (simp add: nullptr_def)
  have h4: "objects example_empty 3 = None"
    by (simp add: example_empty_def)
  note keeps = throwing_constructor_keeps_storage [OF h1 h2 h3]
  from keeps [of 3] h4 have c1:
    "AllocatedPtr_init example_env 3 True example_empty =
       Threw (example_empty
                \<lparr>manager := \<lparr>lin_memory = 4096, lin_size = 64, lin_offset = 16,
                              lin_ownsMemory = True\<rparr>,
                 effects := effects example_empty
                   @ [Allocate_call (Type example_env) (sizeof_T example_env) 4104,
                      Constructor_threw 4104]\<rparr>)"
    by blast
  from keeps [of _ 1 example_holding] example_Reset have c2:
    "AllocatedPtr_Reset_args example_env 1 True example_holding =
       Threw (example_empty
                \<lparr>manager := \<lparr>lin_memory = 4096, lin_size = 64, lin_offset = 16,
                              lin_ownsMemory = True\<rparr>,
                 effects := effects example_empty
                   @ [Allocate_call (Type example_env) (sizeof_T example_env) 4104,
                      Constructor_threw 4104]\<rparr>)"
    and c3: "objects example_empty 1 = Some \<lparr>m_ptr = nullptr\<rparr>"
    by blast+
  show ?thesis
    using h1 h2 h3 h4 example_Reset c1 c2 c3 by (simp add: example_env_simps)
qed

text \<open>
  C1 as stated fails.  With a linear allocator of 64 bytes behind the wrapper and a
  constructor that throws, \<open>AllocatedPtr(args...)\<close> throws after the effects
  \<open>Allocate\<close>, failed construction, with no \<open>Free\<close>, and the allocated size goes from 0 to
  8; \<open>Reset(args...)\<close> on a wrapper that holds a value releases that value, then throws
  in the same way, and the allocated size goes from 8 to 16.
\<close>

theorem throwing_constructor_counterexample:
  "threw (AllocatedPtr_init example_env 0 True example_state)
   \<and> map_option effects (final_state (AllocatedPtr_init example_env 0 True example_state))
       = Some [Allocate_call Linear 8 4096, Constructor_threw 4096]
   \<and> map_option (LinearAllocator_GetAllocatedSize \<circ> manager)
        (final_state (AllocatedPtr_init example_env 0 True example_state)) = Some 8
   \<and> LinearAllocator_GetAllocatedSize (manager example_state) = 0
   \<and> threw (AllocatedPtr_Reset_args example_env 1 True example_holding)
   \<and> map_option effects
        (final_state (AllocatedPtr_Reset_args example_env 1 True example_holding))
       = Some [Allocate_call Linear 8 4096, Constructed 4096, Destroyed 4096,
               Free_call Linear 4096, Allocate_call Linear 8 4104, Constructor_threw 4104]
   \<and> map_option (LinearAllocator_GetAllocatedSize \<circ> manager)
        (final_state (AllocatedPtr_Reset_args example_env 1 True example_holding)) = Some 16
   \<and> LinearAllocator_GetAllocatedSize (manager example_holding) = 8"
  by (simp add: AllocatedPtr_init_def AllocatedPtr_Reset_args_def AllocatedPtr_Reset_def
        new_T_def call_Free_def call_destructor_def set_m_ptr_def
        example_env_simps example_state_def example_linear_def example_holding_def
        example_linear_Allocate nullptr_def LinearAllocator_GetAllocatedSize_def
        linear_manager_Free_def LinearAllocator_Free_def)

subsection \<open>C2: destructor first, then Free\<close>

text \<open>
  C2.  For a wrapper that holds a non-null address, each release path (the destructor,
  \<open>Reset()\<close>, and move assignment from another wrapper) adds exactly two effects, in this
  order: the held value's destructor, then \<open>MemoryManager::Free\<close> of the address with the
  bound kind.  The manager ends in the state that \<open>Free\<close> of that address returns from the
  manager's state before the release: the storage is returned to the allocator, once.
  The object table changes as the path says: the destroyed wrapper is gone, the wrapper
  after \<open>Reset()\<close> is empty, the destination of the move holds the source's address and
  the source is empty.
\<close>

theorem release_order:
  assumes "objects s this = Some w" and "m_ptr w \<noteq> nullptr"
  shows "(\<exists>s'. AllocatedPtr_destructor E this s = Returned () s'
            \<and> effects s' = effects s @ [Destroyed (m_ptr w), Free_call (Type E) (m_ptr w)]
            \<and> manager s' = MM_Free E (Type E) (m_ptr w) (manager s)
            \<and> objects s' = (objects s)(this := None))
       \<and> (\<exists>s'. AllocatedPtr_Reset E this s = Returned () s'
            \<and> effects s' = effects s @ [Destroyed (m_ptr w), Free_call (Type E) (m_ptr w)]
            \<and> manager s' = MM_Free E (Type E) (m_ptr w) (manager s)
            \<and> objects s' = (objects s)(this \<mapsto> \<lparr>m_ptr = nullptr\<rparr>))
       \<and> (\<forall>other ow. objects s other = Some ow \<and> other \<noteq> this \<longrightarrow>
            (\<exists>s'. AllocatedPtr_move_assign E this other s = Returned () s'
               \<and> effects s' = effects s
                    @ [Destroyed (m_ptr w), Free_call (Type E) (m_ptr w)]
               \<and> manager s' = MM_Free E (Type E) (m_ptr w) (manager s)
               \<and> objects s' = (objects s)(this \<mapsto> \<lparr>m_ptr = m_ptr ow\<rparr>,
                                           other \<mapsto> \<lparr>m_ptr = nullptr\<rparr>)))"
  using assms
  by (auto simp: AllocatedPtr_destructor_def AllocatedPtr_Reset_def AllocatedPtr_move_assign_def
        call_Free_def call_destructor_def set_m_ptr_def Let_def)

theorem release_order_witness:
  "objects logging_holding 1 = Some \<lparr>m_ptr = 4096\<rparr> \<and> (4096 :: addr) \<noteq> nullptr
   \<and> objects logging_holding 2 = Some \<lparr>m_ptr = nullptr\<rparr>
   \<and> manager logging_holding = \<lparr>next_address = 4104, returned = []\<rparr>
   \<and> map_option effects (final_state (AllocatedPtr_destructor logging_env 1 logging_holding))
       = Some [Allocate_call Pool 8 4096, Constructed 4096, Destroyed 4096,
               Free_call Pool 4096]
   \<and> map_option manager (final_state (AllocatedPtr_destructor logging_env 1 logging_holding))
       = Some \<lparr>next_address = 4104, returned = [4096]\<rparr>
   \<and> map_option effects (final_state (AllocatedPtr_Reset logging_env 1 logging_holding))
       = Some [Allocate_call Pool 8 4096, Constructed 4096, Destroyed 4096,
               Free_call Pool 4096]
   \<and> map_option manager (final_state (AllocatedPtr_Reset logging_env 1 logging_holding))
       = Some \<lparr>next_address = 4104, returned = [4096]\<rparr>
   \<and> map_option effects
       (final_state (AllocatedPtr_move_assign logging_env 1 2 logging_holding))
       = Some [Allocate_call Pool 8 4096, Constructed 4096, Destroyed 4096,
               Free_call Pool 4096]
   \<and> map_option manager
       (final_state (AllocatedPtr_move_assign logging_env 1 2 logging_holding))
       = Some \<lparr>next_address = 4104, returned = [4096]\<rparr>"
proof -
  have h1: "objects logging_holding 1 = Some \<lparr>m_ptr = 4096\<rparr>"
    and h3: "objects logging_holding 2 = Some \<lparr>m_ptr = nullptr\<rparr>"
    and e: "effects logging_holding = [Allocate_call Pool 8 4096, Constructed 4096]"
    and m: "manager logging_holding = \<lparr>next_address = 4104, returned = []\<rparr>"
    by (simp_all add: logging_holding_def)
  have h2: "m_ptr \<lparr>m_ptr = 4096\<rparr> \<noteq> nullptr" by (simp add: nullptr_def)
  have ne: "(2::nat) \<noteq> 1" by simp
  note rel = release_order [OF h1 h2, of logging_env]
  from rel obtain s1 where s1:
    "AllocatedPtr_destructor logging_env 1 logging_holding = Returned () s1"
    "effects s1 = effects logging_holding
       @ [Destroyed (m_ptr \<lparr>m_ptr = 4096\<rparr>), Free_call (Type logging_env) (m_ptr \<lparr>m_ptr = 4096\<rparr>)]"
    "manager s1 = MM_Free logging_env (Type logging_env) (m_ptr \<lparr>m_ptr = 4096\<rparr>)
                    (manager logging_holding)"
    by blast
  from rel obtain s2 where s2:
    "AllocatedPtr_Reset logging_env 1 logging_holding = Returned () s2"
    "effects s2 = effects logging_holding
       @ [Destroyed (m_ptr \<lparr>m_ptr = 4096\<rparr>), Free_call (Type logging_env) (m_ptr \<lparr>m_ptr = 4096\<rparr>)]"
    "manager s2 = MM_Free logging_env (Type logging_env) (m_ptr \<lparr>m_ptr = 4096\<rparr>)
                    (manager logging_holding)"
    by blast
  from rel h3 ne obtain s3 where s3:
    "AllocatedPtr_move_assign logging_env 1 2 logging_holding = Returned () s3"
    "effects s3 = effects logging_holding
       @ [Destroyed (m_ptr \<lparr>m_ptr = 4096\<rparr>), Free_call (Type logging_env) (m_ptr \<lparr>m_ptr = 4096\<rparr>)]"
    "manager s3 = MM_Free logging_env (Type logging_env) (m_ptr \<lparr>m_ptr = 4096\<rparr>)
                    (manager logging_holding)"
    by blast
  show ?thesis
    using h1 h2 h3 m s1 s2 s3
    by (simp add: e logging_env_simps logging_Free_def)
qed

subsection \<open>C3: exclusive ownership\<close>



subsection \<open>C4: the pool's accounting equation\<close>

text \<open>
  C4.  In every state of a PoolAllocator, reachable or not, and so in every state with
  \<open>freeBlocks \<le> blockCount\<close>, the equation
  \<open>GetAllocatedSize() + freeBlocks * blockSize == GetTotalSize()\<close> holds in \<open>size_t\<close>
  arithmetic.  In a state with \<open>freeBlocks \<le> blockCount\<close> whose capacity
  \<open>blockCount * blockSize\<close> fits in a \<open>size_t\<close>, it holds of the numbers as well, with
  \<open>GetAllocatedSize()\<close> equal to \<open>(blockCount - freeBlocks) * blockSize\<close> and
  \<open>GetTotalSize()\<close> equal to \<open>blockCount * blockSize\<close>.
\<close>

theorem pool_accounting_equation:
  "PoolAllocator_GetAllocatedSize a + pool_freeBlocks a * pool_blockSize a
     = PoolAllocator_GetTotalSize a
   \<and> (pool_freeBlocks a \<le> pool_blockCount a
        \<and> unat (pool_blockCount a) * unat (pool_blockSize a) < 2 ^ 64
      \<longrightarrow> unat (PoolAllocator_GetAllocatedSize a)
            + unat (pool_freeBlocks a) * unat (pool_blockSize a)
          = unat (PoolAllocator_GetTotalSize a)
        \<and> unat (PoolAllocator_GetAllocatedSize a)
          = (unat (pool_blockCount a) - unat (pool_freeBlocks a)) * unat (pool_blockSize a)
        \<and> unat (PoolAllocator_GetTotalSize a)
          = unat (pool_blockCount a) * unat (pool_blockSize a))"
proof -
  have ring: "PoolAllocator_GetAllocatedSize a + pool_freeBlocks a * pool_blockSize a
     = PoolAllocator_GetTotalSize a"
    by (simp add: PoolAllocator_GetAllocatedSize_def PoolAllocator_GetTotalSize_def algebra_simps)
  have nat: "unat (PoolAllocator_GetAllocatedSize a)
            + unat (pool_freeBlocks a) * unat (pool_blockSize a)
          = unat (PoolAllocator_GetTotalSize a)
        \<and> unat (PoolAllocator_GetAllocatedSize a)
          = (unat (pool_blockCount a) - unat (pool_freeBlocks a)) * unat (pool_blockSize a)
        \<and> unat (PoolAllocator_GetTotalSize a)
          = unat (pool_blockCount a) * unat (pool_blockSize a)"
    if le: "pool_freeBlocks a \<le> pool_blockCount a"
      and fit: "unat (pool_blockCount a) * unat (pool_blockSize a) < 2 ^ 64"
  proof -
    from le have le': "unat (pool_freeBlocks a) \<le> unat (pool_blockCount a)"
      by (simp add: word_le_nat_alt)
    from le have sub: "unat (pool_blockCount a - pool_freeBlocks a)
        = unat (pool_blockCount a) - unat (pool_freeBlocks a)"
      by (rule unat_sub)
    have "(unat (pool_blockCount a) - unat (pool_freeBlocks a)) * unat (pool_blockSize a)
            \<le> unat (pool_blockCount a) * unat (pool_blockSize a)"
      by (rule mult_le_mono1) simp
    from this fit have
      "(unat (pool_blockCount a) - unat (pool_freeBlocks a)) * unat (pool_blockSize a) < 2 ^ 64"
      by (rule le_less_trans)
    then have
      "unat (pool_blockCount a - pool_freeBlocks a) * unat (pool_blockSize a) < 2 ^ 64"
      unfolding sub .
    then have used: "unat (PoolAllocator_GetAllocatedSize a)
          = (unat (pool_blockCount a) - unat (pool_freeBlocks a)) * unat (pool_blockSize a)"
      by (simp add: PoolAllocator_GetAllocatedSize_def unat_mult_no_overflow sub)
    from fit have total: "unat (PoolAllocator_GetTotalSize a)
          = unat (pool_blockCount a) * unat (pool_blockSize a)"
      by (simp add: PoolAllocator_GetTotalSize_def unat_mult_no_overflow)
    from le' have "(unat (pool_blockCount a) - unat (pool_freeBlocks a)) * unat (pool_blockSize a)
            + unat (pool_freeBlocks a) * unat (pool_blockSize a)
          = unat (pool_blockCount a) * unat (pool_blockSize a)"
      by (simp add: add_mult_distrib [symmetric])
    with used total show ?thesis by simp
  qed
  from ring nat show ?thesis by blast
qed

theorem pool_accounting_equation_witness:
  "pool_freeBlocks example_pool \<le> pool_blockCount example_pool
   \<and> unat (pool_blockCount example_pool) * unat (pool_blockSize example_pool) < 2 ^ 64
   \<and> PoolAllocator_GetAllocatedSize example_pool = 192
   \<and> PoolAllocator_GetTotalSize example_pool = 256
   \<and> unat (PoolAllocator_GetAllocatedSize example_pool)
        + unat (pool_freeBlocks example_pool) * unat (pool_blockSize example_pool)
      = unat (PoolAllocator_GetTotalSize example_pool)"
proof -
  have h1: "pool_freeBlocks example_pool \<le> pool_blockCount example_pool"
    by (simp add: example_pool_def)
  have h2: "unat (pool_blockCount example_pool) * unat (pool_blockSize example_pool) < 2 ^ 64"
    by (simp add: example_pool_def)
  have v: "PoolAllocator_GetAllocatedSize example_pool = 192"
    "PoolAllocator_GetTotalSize example_pool = 256"
    by (simp_all add: example_pool_def PoolAllocator_GetAllocatedSize_def
          PoolAllocator_GetTotalSize_def)
  from pool_accounting_equation [of example_pool] h1 h2 have
    "unat (PoolAllocator_GetAllocatedSize example_pool)
        + unat (pool_freeBlocks example_pool) * unat (pool_blockSize example_pool)
      = unat (PoolAllocator_GetTotalSize example_pool)"
    by blast
  with h1 h2 v show ?thesis by blast
qed

subsection \<open>C5: Reset with arguments\<close>

text \<open>
  C5.  In every state and for every argument list, \<open>Reset(args...)\<close> has the same outcome
  (the same wrapper state, manager state and sequence of effects) as \<open>Reset()\<close> followed
  by the construction of a new value from the bound allocator kind, which is what the
  initializing constructor does for a new wrapper.  On a wrapper that holds a value, when
  the allocation succeeds and the constructor returns, the effects are: destructor, Free,
  Allocate, construction in place.
\<close>

theorem Reset_args_refines:
  "AllocatedPtr_Reset_args E this args s = spec_Reset_args E this args s
   \<and> (objects s fresh = None \<longrightarrow>
        AllocatedPtr_init E fresh args s = construct_value E fresh args s)
   \<and> (objects s this = Some w \<and> m_ptr w \<noteq> nullptr \<and> \<not> T_throws E args
       \<and> MM_Allocate E (Type E) (sizeof_T E) 0 (MM_Free E (Type E) (m_ptr w) (manager s))
           = (p, m')
       \<and> p \<noteq> nullptr
      \<longrightarrow> AllocatedPtr_Reset_args E this args s =
            Returned () (s\<lparr>objects := (objects s)(this \<mapsto> \<lparr>m_ptr = p\<rparr>),
                           manager := m',
                           effects := effects s
                             @ [Destroyed (m_ptr w), Free_call (Type E) (m_ptr w),
                                Allocate_call (Type E) (sizeof_T E) p, Constructed p]\<rparr>))"
proof -
  have construct: "construct_value E i args t =
      and_then (new_T E args t) (\<lambda>p s2. Returned () (set_m_ptr i p s2))" for i t
    by (cases "new_T E args t") (simp_all add: construct_value_def)
  have "AllocatedPtr_Reset_args E this args s = spec_Reset_args E this args s"
    by (cases "AllocatedPtr_Reset E this s")
       (simp_all add: AllocatedPtr_Reset_args_def spec_Reset_args_def construct)
  moreover have "AllocatedPtr_init E fresh args s = construct_value E fresh args s"
    if "objects s fresh = None"
    using that by (simp add: AllocatedPtr_init_def construct)
  moreover have "AllocatedPtr_Reset_args E this args s =
            Returned () (s\<lparr>objects := (objects s)(this \<mapsto> \<lparr>m_ptr = p\<rparr>),
                           manager := m',
                           effects := effects s
                             @ [Destroyed (m_ptr w), Free_call (Type E) (m_ptr w),
                                Allocate_call (Type E) (sizeof_T E) p, Constructed p]\<rparr>)"
    if "objects s this = Some w" "m_ptr w \<noteq> nullptr" "\<not> T_throws E args"
       "MM_Allocate E (Type E) (sizeof_T E) 0 (MM_Free E (Type E) (m_ptr w) (manager s))
          = (p, m')"
       "p \<noteq> nullptr"
    using that
    by (simp add: AllocatedPtr_Reset_args_def AllocatedPtr_Reset_def new_T_def call_Free_def
          call_destructor_def set_m_ptr_def)
  ultimately show ?thesis by blast
qed

theorem Reset_args_refines_witness:
  "objects example_holding 3 = None
   \<and> objects example_holding 1 = Some \<lparr>m_ptr = 4096\<rparr> \<and> (4096 :: addr) \<noteq> nullptr
   \<and> \<not> T_throws example_env False
   \<and> MM_Allocate example_env (Type example_env) (sizeof_T example_env) 0
        (MM_Free example_env (Type example_env) 4096 (manager example_holding))
       = (4104, \<lparr>lin_memory = 4096, lin_size = 64, lin_offset = 16, lin_ownsMemory = True\<rparr>)
   \<and> (4104 :: addr) \<noteq> nullptr
   \<and> AllocatedPtr_Reset_args example_env 1 False example_holding
       = spec_Reset_args example_env 1 False example_holding
   \<and> AllocatedPtr_init example_env 3 False example_holding
       = construct_value example_env 3 False example_holding
   \<and> map_option effects
       (final_state (AllocatedPtr_Reset_args example_env 1 False example_holding))
       = Some [Allocate_call Linear 8 4096, Constructed 4096, Destroyed 4096,
               Free_call Linear 4096, Allocate_call Linear 8 4104, Constructed 4104]
   \<and> map_option (\<lambda>s. objects s 1)
       (final_state (AllocatedPtr_Reset_args example_env 1 False example_holding))
       = Some (Some \<lparr>m_ptr = 4104\<rparr>)"
proof -
  have h0: "objects example_holding 3 = None"
    and h1: "objects example_holding 1 = Some \<lparr>m_ptr = 4096\<rparr>"
    and e: "effects example_holding = [Allocate_call Linear 8 4096, Constructed 4096]"
    by (simp_all add: example_holding_def)
  have h2: "m_ptr \<lparr>m_ptr = 4096\<rparr> \<noteq> nullptr" by (simp add: nullptr_def)
  have h3: "\<not> T_throws example_env False" by (simp add: example_env_simps)
  have h4: "MM_Allocate example_env (Type example_env) (sizeof_T example_env) 0
        (MM_Free example_env (Type example_env) (m_ptr \<lparr>m_ptr = 4096\<rparr>)
           (manager example_holding))
       = (4104, \<lparr>lin_memory = 4096, lin_size = 64, lin_offset = 16, lin_ownsMemory = True\<rparr>)"
    by (simp add: example_env_simps example_holding_def example_linear_Allocate
          linear_manager_Free_def LinearAllocator_Free_def)
  have h5: "(4104 :: addr) \<noteq> nullptr" by (simp add: nullptr_def)
  note refines = Reset_args_refines
    [of example_env 1 False example_holding 3 "\<lparr>m_ptr = 4096\<rparr>" 4104
        "\<lparr>lin_memory = 4096, lin_size = 64, lin_offset = 16, lin_ownsMemory = True\<rparr>"]
  from refines have c1: "AllocatedPtr_Reset_args example_env 1 False example_holding
       = spec_Reset_args example_env 1 False example_holding"
    by (rule conjunct1)
  from refines h0 have c2: "AllocatedPtr_init example_env 3 False example_holding
       = construct_value example_env 3 False example_holding"
    by blast
  from refines h1 h2 h3 h4 h5 have c3:
    "AllocatedPtr_Reset_args example_env 1 False example_holding =
       Returned () (example_holding
          \<lparr>objects := (objects example_holding)(1 \<mapsto> \<lparr>m_ptr = 4104\<rparr>),
           manager := \<lparr>lin_memory = 4096, lin_size = 64, lin_offset = 16,
                        lin_ownsMemory = True\<rparr>,
           effects := effects example_holding
             @ [Destroyed (m_ptr \<lparr>m_ptr = 4096\<rparr>),
                Free_call (Type example_env) (m_ptr \<lparr>m_ptr = 4096\<rparr>),
                Allocate_call (Type example_env) (sizeof_T example_env) 4104,
                Constructed 4104]\<rparr>)"
    by blast
  have c4: "map_option effects
       (final_state (AllocatedPtr_Reset_args example_env 1 False example_holding))
       = Some [Allocate_call Linear 8 4096, Constructed 4096, Destroyed 4096,
               Free_call Linear 4096, Allocate_call Linear 8 4104, Constructed 4104]"
    unfolding c3 by (simp add: e example_env_simps)
  have c5: "map_option (\<lambda>s. objects s 1)
       (final_state (AllocatedPtr_Reset_args example_env 1 False example_holding))
       = Some (Some \<lparr>m_ptr = 4104\<rparr>)"
    unfolding c3 by simp
  show ?thesis
    using h0 h1 h2 h3 h4 h5 c1 c2 c4 c5 by simp
qed

subsection \<open>C6: linear allocations\<close>

text \<open>
  C6.  For every sequence of \<open>LinearAllocator::Allocate\<close> calls whose cumulative aligned
  size is at most the buffer capacity, every call returns an address whose \<open>size\<close> bytes lie
  within the buffer and which has the requested alignment; and a further call whose
  aligned reservation would exceed the capacity fails and leaves the allocator's state,
  and so \<open>GetAllocatedSize()\<close>, as it was.
\<close>

theorem linear_allocations:
  assumes "lin_valid a"
    and "cumulative_aligned_size (unat (lin_memory a)) (unat (lin_offset a)) reqs
           \<le> unat (lin_size a)"
  shows "list_all2 (\<lambda>(sz, al) r. \<exists>p. r = Some p \<and> within_buffer a p sz \<and> aligned_to p al)
           reqs (fst (LinearAllocator_Allocate_all reqs a))
       \<and> (\<forall>sz al.
            unat (lin_size a)
              < cumulative_aligned_size (unat (lin_memory a)) (unat (lin_offset a))
                  (reqs @ [(sz, al)])
            \<longrightarrow> LinearAllocator_Allocate sz al (snd (LinearAllocator_Allocate_all reqs a))
                  = (None, snd (LinearAllocator_Allocate_all reqs a))
                \<and> LinearAllocator_GetAllocatedSize
                    (snd (LinearAllocator_Allocate sz al
                            (snd (LinearAllocator_Allocate_all reqs a))))
                  = LinearAllocator_GetAllocatedSize (snd (LinearAllocator_Allocate_all reqs a)))"
proof -
  let ?a' = "snd (LinearAllocator_Allocate_all reqs a)"
  note fits = Allocate_all_fits [OF assms]
  have "LinearAllocator_Allocate sz al ?a' = (None, ?a')"
    if "unat (lin_size a)
          < cumulative_aligned_size (unat (lin_memory a)) (unat (lin_offset a))
              (reqs @ [(sz, al)])"
    for sz al
  proof (rule Allocate_exceeds)
    from that fits
    show "unat (lin_size ?a') < unat (lin_offset ?a')
             + alignment_padding (unat (lin_memory ?a') + unat (lin_offset ?a'))
                 (effective_alignment al)
             + unat sz"
      by (simp add: cumulative_append)
  qed
  with fits show ?thesis by simp
qed

theorem linear_allocations_witness:
  "lin_valid example_linear
   \<and> cumulative_aligned_size (unat (lin_memory example_linear))
        (unat (lin_offset example_linear)) example_requests \<le> unat (lin_size example_linear)
   \<and> unat (lin_size example_linear)
        < cumulative_aligned_size (unat (lin_memory example_linear))
            (unat (lin_offset example_linear)) (example_requests @ [(40, 8)])
   \<and> fst (LinearAllocator_Allocate_all example_requests example_linear)
        = [Some 4096, Some 4104, Some 4112]
   \<and> list_all2
        (\<lambda>(sz, al) r. \<exists>p. r = Some p \<and> within_buffer example_linear p sz \<and> aligned_to p al)
        example_requests (fst (LinearAllocator_Allocate_all example_requests example_linear))
   \<and> LinearAllocator_Allocate 40 8
        (snd (LinearAllocator_Allocate_all example_requests example_linear))
        = (None, snd (LinearAllocator_Allocate_all example_requests example_linear))"
proof -
  have h1: "lin_valid example_linear"
    by (simp add: lin_valid_def example_linear_def)
  have h2: "cumulative_aligned_size (unat (lin_memory example_linear))
              (unat (lin_offset example_linear)) example_requests
              \<le> unat (lin_size example_linear)"
    by (simp add: example_linear_def example_requests_def alignment_padding_def
          effective_alignment_def natural_alignment_def)
  have h3: "unat (lin_size example_linear)
        < cumulative_aligned_size (unat (lin_memory example_linear))
            (unat (lin_offset example_linear)) (example_requests @ [(40, 8)])"
    by (simp add: example_linear_def example_requests_def alignment_padding_def
          effective_alignment_def natural_alignment_def)
  have r: "fst (LinearAllocator_Allocate_all example_requests example_linear)
        = [Some 4096, Some 4104, Some 4112]"
    by (simp add: example_linear_def example_requests_def LinearAllocator_Allocate_def
          alignment_padding_def effective_alignment_def natural_alignment_def)
  note lin = linear_allocations [OF h1 h2]
  from lin have c1:
    "list_all2
       (\<lambda>(sz, al) r. \<exists>p. r = Some p \<and> within_buffer example_linear p sz \<and> aligned_to p al)
       example_requests (fst (LinearAllocator_Allocate_all example_requests example_linear))"
    by (rule conjunct1)
  from lin h3 have c2:
    "LinearAllocator_Allocate 40 8
       (snd (LinearAllocator_Allocate_all example_requests example_linear))
        = (None, snd (LinearAllocator_Allocate_all example_requests example_linear))"
    by blast
  from h1 h2 h3 r c1 c2 show ?thesis by blast
qed

subsection \<open>C7: the stack allocator's marker\<close>

text \<open>
  C7.  For every StackAllocator state and every sequence of \<open>Allocate\<close> calls made after
  \<open>GetMarker()\<close> (any number of them, successful or not), \<open>FreeToMarker\<close> with that marker
  brings \<open>GetAllocatedSize()\<close> back to exactly its value when the marker was taken.
\<close>

theorem stack_marker_round_trip:
  "StackAllocator_GetAllocatedSize
     (StackAllocator_FreeToMarker (StackAllocator_GetMarker a)
        (snd (StackAllocator_Allocate_all reqs a)))
   = StackAllocator_GetAllocatedSize a"
  by (simp add: StackAllocator_GetAllocatedSize_def StackAllocator_FreeToMarker_def
        StackAllocator_GetMarker_def)

text \<open>
  The scenario of the specification: a stack allocator of 256 bytes; a marker, then
  allocations of 100 and of 50 bytes, which succeed and bring the allocated size to 154;
  \<open>FreeToMarker\<close> brings it back to 0, and an allocation of 200 bytes succeeds.
\<close>

lemma stack_scenario:
  "fst (StackAllocator_Allocate_all [(100, 0), (50, 0)] example_stack) = [Some 4096, Some 4200]
   \<and> StackAllocator_GetAllocatedSize
       (snd (StackAllocator_Allocate_all [(100, 0), (50, 0)] example_stack)) = 154
   \<and> StackAllocator_GetAllocatedSize
       (StackAllocator_FreeToMarker (StackAllocator_GetMarker example_stack)
          (snd (StackAllocator_Allocate_all [(100, 0), (50, 0)] example_stack))) = 0
   \<and> fst (StackAllocator_Allocate 200 0
       (StackAllocator_FreeToMarker (StackAllocator_GetMarker example_stack)
          (snd (StackAllocator_Allocate_all [(100, 0), (50, 0)] example_stack)))) = Some 4096"
  by (simp add: example_stack_def StackAllocator_Allocate_def StackAllocator_GetAllocatedSize_def
        StackAllocator_FreeToMarker_def StackAllocator_GetMarker_def alignment_padding_def
        effective_alignment_def natural_alignment_def)

subsection \<open>C8: the manager's statistics\<close>

text \<open>
  C8.  In every state of the MemoryManager, the value returned by \<open>GetMemoryStats()\<close> has
  \<open>totalAllocated\<close> equal to the sum over all kinds of the usage entries in
  \<open>allocatorUsage\<close>, in \<open>size_t\<close> arithmetic.
\<close>

theorem stats_total_is_usage_sum:
  "totalAllocated (MemoryManager_GetMemoryStats mm) = usage_sum (MemoryManager_GetMemoryStats mm)"
  by (simp add: MemoryManager_GetMemoryStats_def usage_sum_def all_AllocatorTypes_def
        account_allocator_def split: option.splits)

subsection \<open>C9: the empty wrapper\<close>

text \<open>
  C9.  For a wrapper that holds no value, \<open>operator bool\<close> is false, \<open>Get()\<close> is
  \<open>nullptr\<close>, and the destructor and \<open>Reset()\<close> run no destructor and call no \<open>Free\<close>: they
  leave the manager and the effects as they were.  A default-constructed wrapper, the
  source of a move construction or of a move assignment, and a wrapper after \<open>Reset()\<close>
  hold no value.
\<close>

theorem empty_wrapper_inert:
  assumes "objects s this = Some w" and "m_ptr w = nullptr"
  shows "\<not> AllocatedPtr_operator_bool w \<and> AllocatedPtr_Get w = nullptr
       \<and> AllocatedPtr_Reset E this s = Returned () s
       \<and> AllocatedPtr_destructor E this s
           = Returned () (s\<lparr>objects := (objects s)(this := None)\<rparr>)
       \<and> (\<forall>fresh. objects s fresh = None \<longrightarrow>
            (\<exists>s'. AllocatedPtr_default fresh s = Returned () s'
                \<and> objects s' fresh = Some \<lparr>m_ptr = nullptr\<rparr>))
       \<and> (\<forall>fresh other ow. objects s fresh = None \<and> objects s other = Some ow \<longrightarrow>
            (\<exists>s'. AllocatedPtr_move fresh other s = Returned () s'
                \<and> objects s' other = Some \<lparr>m_ptr = nullptr\<rparr>))
       \<and> (\<forall>other ow. objects s other = Some ow \<and> other \<noteq> this \<longrightarrow>
            (\<exists>s'. AllocatedPtr_move_assign E this other s = Returned () s'
                \<and> objects s' other = Some \<lparr>m_ptr = nullptr\<rparr>))
       \<and> (\<forall>other ow. objects s other = Some ow \<longrightarrow>
            (\<exists>s'. AllocatedPtr_Reset E other s = Returned () s'
                \<and> objects s' other = Some \<lparr>m_ptr = nullptr\<rparr>))"
proof -
  have null: "ow = \<lparr>m_ptr = nullptr\<rparr>" if "m_ptr ow = nullptr" for ow :: AllocatedPtr
    using that by (cases ow) simp
  show ?thesis
    using assms
    by (auto simp: AllocatedPtr_operator_bool_def AllocatedPtr_Get_def AllocatedPtr_Reset_def
        AllocatedPtr_destructor_def AllocatedPtr_default_def AllocatedPtr_move_def
        AllocatedPtr_move_assign_def set_m_ptr_def null)
qed

theorem empty_wrapper_inert_witness:
  "objects example_holding 2 = Some \<lparr>m_ptr = nullptr\<rparr>
   \<and> objects example_holding 1 = Some \<lparr>m_ptr = 4096\<rparr>
   \<and> objects example_holding 3 = None
   \<and> \<not> AllocatedPtr_operator_bool \<lparr>m_ptr = nullptr\<rparr>
   \<and> AllocatedPtr_Reset example_env 2 example_holding = Returned () example_holding
   \<and> map_option effects (final_state (AllocatedPtr_destructor example_env 2 example_holding))
       = Some (effects example_holding)
   \<and> map_option manager (final_state (AllocatedPtr_destructor example_env 2 example_holding))
       = Some (manager example_holding)
   \<and> map_option (\<lambda>s. objects s 3) (final_state (AllocatedPtr_default 3 example_holding))
       = Some (Some \<lparr>m_ptr = nullptr\<rparr>)
   \<and> map_option (\<lambda>s. objects s 1) (final_state (AllocatedPtr_move 3 1 example_holding))
       = Some (Some \<lparr>m_ptr = nullptr\<rparr>)
   \<and> map_option (\<lambda>s. objects s 1)
       (final_state (AllocatedPtr_move_assign example_env 2 1 example_holding))
       = Some (Some \<lparr>m_ptr = nullptr\<rparr>)
   \<and> map_option (\<lambda>s. objects s 1)
       (final_state (AllocatedPtr_Reset example_env 1 example_holding))
       = Some (Some \<lparr>m_ptr = nullptr\<rparr>)"
proof -
  have h1: "objects example_holding 2 = Some \<lparr>m_ptr = nullptr\<rparr>"
    and h3: "objects example_holding 1 = Some \<lparr>m_ptr = 4096\<rparr>"
    and h4: "objects example_holding 3 = None"
    by (simp_all add: example_holding_def)
  have h2: "m_ptr \<lparr>m_ptr = nullptr\<rparr> = nullptr" by simp
  have h5: "(1::nat) \<noteq> 2" by simp
  note inert = empty_wrapper_inert [OF h1 h2, of example_env]
  from inert have c1: "\<not> AllocatedPtr_operator_bool \<lparr>m_ptr = nullptr\<rparr>"
    and c2: "AllocatedPtr_Reset example_env 2 example_holding = Returned () example_holding"
    and c3: "AllocatedPtr_destructor example_env 2 example_holding
              = Returned () (example_holding\<lparr>objects := (objects example_holding)(2 := None)\<rparr>)"
    by blast+
  from inert h4 obtain s1 where s1: "AllocatedPtr_default 3 example_holding = Returned () s1"
    "objects s1 3 = Some \<lparr>m_ptr = nullptr\<rparr>" by blast
  from inert h4 h3 obtain s2 where s2: "AllocatedPtr_move 3 1 example_holding = Returned () s2"
    "objects s2 1 = Some \<lparr>m_ptr = nullptr\<rparr>" by blast
  from inert h3 h5 obtain s3 where s3:
    "AllocatedPtr_move_assign example_env 2 1 example_holding = Returned () s3"
    "objects s3 1 = Some \<lparr>m_ptr = nullptr\<rparr>" by blast
  from inert h3 obtain s4 where s4:
    "AllocatedPtr_Reset example_env 1 example_holding = Returned () s4"
    "objects s4 1 = Some \<lparr>m_ptr = nullptr\<rparr>" by blast
  show ?thesis
    using h1 h3 h4 c1 c2 c3 s1 s2 s3 s4 by simp
qed

subsection \<open>C10: move assignment to itself\<close>

text \<open>
  C10.  Move-assigning a wrapper to itself, whether it is empty or holds a value, leaves
  the whole program state unchanged: the wrapper holds the same address, no destructor
  runs and \<open>Free\<close> is not called.
\<close>

theorem self_move_assign:
  assumes "objects s this = Some w"
  shows "AllocatedPtr_move_assign E this this s = Returned () s"
  using assms by (simp add: AllocatedPtr_move_assign_def)

theorem self_move_assign_witness:
  "objects example_holding 1 = Some \<lparr>m_ptr = 4096\<rparr>
   \<and> objects example_holding 2 = Some \<lparr>m_ptr = nullptr\<rparr>
   \<and> AllocatedPtr_move_assign example_env 1 1 example_holding = Returned () example_holding
   \<and> AllocatedPtr_move_assign example_env 2 2 example_holding = Returned () example_holding"
proof -
  have h1: "objects example_holding 1 = Some \<lparr>m_ptr = 4096\<rparr>"
    and h2: "objects example_holding 2 = Some \<lparr>m_ptr = nullptr\<rparr>"
    by (simp_all add: example_holding_def)
  from self_move_assign [OF h1, of example_env] self_move_assign [OF h2, of example_env] h1 h2
  show ?thesis by simp
qed

end
